theory Spec2Isabelle
  imports Complex_Main
begin

section \<open>Scroll to Breathe: the scroll handler and the audio toggle of script.js\<close>

text \<open>
  The script registers two event handlers: \<open>handleScroll\<close>, which turns the scroll
  position into a progress ratio and writes colours, scales and opacities, and the click
  handler of the audio toggle.

  Numbers: a JavaScript number is modelled as a \<open>real\<close>, so \<open>Math.sin\<close> is \<open>sin\<close>,
  \<open>Math.PI\<close> is \<open>pi\<close> and the decimal literals of the source are exact rationals;
  the rounding of IEEE doubles is not modelled. The one place where the source computes
  with a value that is not a number (an array read past the end gives \<open>undefined\<close>, and
  arithmetic on it gives \<open>NaN\<close>) is modelled with \<open>real option\<close>, \<open>None\<close> being
  \<open>undefined\<close> or \<open>NaN\<close>.
\<close>

subsection \<open>Values read from the host page\<close>

text \<open>
  What \<open>handleScroll\<close> reads: \<open>window.pageYOffset\<close>,
  \<open>document.documentElement.scrollTop\<close>, \<open>window.innerHeight\<close>, the
  \<open>scrollHeight\<close> of the element with id \<open>scroll-container\<close> (\<open>None\<close> when
  \<open>getElementById\<close> returned \<open>null\<close>), and the two node lists gathered at start-up, of
  which only the lengths and the indices matter.
\<close>

record host =
  pageYOffset :: real
  documentElement_scrollTop :: real
  innerHeight :: real
  scrollContainer_scrollHeight :: "real option"
  shapes_length :: nat
  messages_length :: nat

datatype js_error = TypeError

subsection \<open>Writes to the host page, in the order the handler issues them\<close>

text \<open>
  \<open>SetBackgroundColor h s l\<close> is the assignment of \<open>hsl(h, s%, l%)\<close> to
  \<open>document.body.style.backgroundColor\<close>; \<open>SetTransform i k\<close> assigns
  \<open>scale(k)\<close> to the transform of shape \<open>i\<close>; \<open>SetOpacity i v\<close> assigns \<open>v\<close> to
  the opacity of message \<open>i\<close>; \<open>ScrollTo x y\<close> is the call \<open>window.scrollTo(x, y)\<close>.
\<close>

datatype effect =
    SetBackgroundColor real real real
  | SetTransform nat real
  | SetOpacity nat real
  | ScrollTo real real

subsection \<open>Progress\<close>

text \<open>
  \<open>const scrollTop = window.pageYOffset || document.documentElement.scrollTop\<close>:
  the right operand is taken when the left one is falsy, which for a number means zero.
\<close>

definition scrollTop :: "real \<Rightarrow> real \<Rightarrow> real" where
  "scrollTop y d = (if y \<noteq> 0 then y else d)"

text \<open>\<open>const totalScroll = scrollContainer.scrollHeight - window.innerHeight\<close>\<close>

definition totalScroll :: "real \<Rightarrow> real \<Rightarrow> real" where
  "totalScroll scrollHeight viewport = scrollHeight - viewport"

text \<open>
  \<open>const progress = totalScroll > 0 ? Math.min(1, Math.max(0, scrollTop / totalScroll)) : 0\<close>,
  as a function of the scroll offset and of the scrollable range.
\<close>

definition progress :: "real \<Rightarrow> real \<Rightarrow> real" where
  "progress s t = (if t > 0 then min 1 (max 0 (s / t)) else 0)"

subsection \<open>Background colour\<close>

definition hue :: "real \<Rightarrow> real" where
  "hue p = 200 + p * 100"

definition lightness :: "real \<Rightarrow> real" where
  "lightness p = 60 + sin (p * pi) * 10"

subsection \<open>Shapes\<close>

text \<open>
  The body of \<open>shapes.forEach\<close> for the shape at \<open>index\<close>, \<open>n\<close> being
  \<open>shapes.length\<close>. The callback only runs for an index below \<open>n\<close>, so \<open>n\<close> is
  positive wherever the handler evaluates the quotient.
\<close>

definition phaseOffset :: "nat \<Rightarrow> nat \<Rightarrow> real" where
  "phaseOffset index n = (real index * pi) / real n"

definition phase :: "real \<Rightarrow> nat \<Rightarrow> nat \<Rightarrow> real" where
  "phase p index n = p * 8 * pi + phaseOffset index n"

definition scale :: "real \<Rightarrow> nat \<Rightarrow> nat \<Rightarrow> real" where
  "scale p index n = 0.8 + sin (phase p index n) * 0.2"

subsection \<open>Messages\<close>

definition messagePositions :: "real list" where
  "messagePositions = [0.10, 0.30, 0.50, 0.70, 0.90]"

definition fadeRange :: real where
  "fadeRange = 0.12"

text \<open>
  \<open>const target = messagePositions[i]\<close>: an array read, \<open>undefined\<close> past the end
  (no exception in JavaScript).
\<close>

definition target :: "nat \<Rightarrow> real option" where
  "target i = (if i < length messagePositions then Some (messagePositions ! i) else None)"

text \<open>
  \<open>const diff = Math.abs(progress - target)\<close>: \<open>NaN\<close> when the target is
  \<open>undefined\<close>.
\<close>

definition diff :: "real \<Rightarrow> nat \<Rightarrow> real option" where
  "diff p i = (case target i of None \<Rightarrow> None | Some t \<Rightarrow> Some \<bar>p - t\<bar>)"

text \<open>
  \<open>let opacity = 0; if (diff < fadeRange) { opacity = 1 - diff / fadeRange; }\<close>:
  a comparison with \<open>NaN\<close> is false, so the initial 0 stays.
\<close>

definition opacity :: "real \<Rightarrow> nat \<Rightarrow> real" where
  "opacity p i =
     (case diff p i of
        None \<Rightarrow> 0
      | Some d \<Rightarrow> if d < fadeRange then 1 - d / fadeRange else 0)"

subsection \<open>The handler\<close>

definition shape_effects :: "real \<Rightarrow> nat \<Rightarrow> effect list" where
  "shape_effects p n = map (\<lambda>index. SetTransform index (scale p index n)) [0..<n]"

definition message_effects :: "real \<Rightarrow> nat \<Rightarrow> effect list" where
  "message_effects p m = map (\<lambda>i. SetOpacity i (opacity p i)) [0..<m]"

text \<open>
  \<open>handleScroll\<close>: reading \<open>scrollHeight\<close> of a missing container throws a
  \<open>TypeError\<close> before anything is written. Otherwise the writes are issued in source
  order: the background, the shapes, the messages, and last, when
  \<open>progress >= 0.99\<close>, the call \<open>window.scrollTo(0, 1)\<close>.
\<close>

definition handleScroll :: "host \<Rightarrow> js_error + effect list" where
  "handleScroll h =
     (case scrollContainer_scrollHeight h of
        None \<Rightarrow> Inl TypeError
      | Some scrollHeight \<Rightarrow>
          (let p = progress (scrollTop (pageYOffset h) (documentElement_scrollTop h))
                            (totalScroll scrollHeight (innerHeight h))
           in Inr ([SetBackgroundColor (hue p) 60 (lightness p)]
                   @ shape_effects p (shapes_length h)
                   @ message_effects p (messages_length h)
                   @ (if p \<ge> 0.99 then [ScrollTo 0 1] else []))))"

text \<open>
  An effect is visual when it writes a presentation attribute; \<open>window.scrollTo\<close> is
  the only one that is not.
\<close>

fun is_visual :: "effect \<Rightarrow> bool" where
  "is_visual (ScrollTo x y) = False"
| "is_visual (SetBackgroundColor a b c) = True"
| "is_visual (SetTransform i k) = True"
| "is_visual (SetOpacity i v) = True"

subsection \<open>Step 1 of the specification's algorithm\<close>

text \<open>
  The progress formula in the specification's words,
  \<open>progress = clamp01(scrollOffset / max(1, scrollableHeight - viewportHeight))\<close>, and
  0 when the range is not positive; written down to be compared with \<open>progress\<close>, which
  is the source's.
\<close>

definition clamp01 :: "real \<Rightarrow> real" where
  "clamp01 x = min 1 (max 0 x)"

definition progress_as_specified :: "real \<Rightarrow> real \<Rightarrow> real" where
  "progress_as_specified s r = (if r \<le> 0 then 0 else clamp01 (s / max 1 r))"

subsection \<open>The audio toggle\<close>

text \<open>
  The state the click handler reads and writes: the \<open>src\<close> and \<open>paused\<close> attributes of
  the audio element, the label (\<open>textContent\<close>) of the toggle, the notices shown with
  \<open>alert\<close> so far, and the number of \<open>play()\<close> requests made so far.
\<close>

record toggle_page =
  ambientAudio_src :: string
  ambientAudio_paused :: bool
  audioToggle_textContent :: string
  alerts :: "string list"
  play_requests :: nat

text \<open>
  \<open>ambientAudio.play()\<close> returns a promise that the host fulfils or rejects; which of
  the two is the host's choice, a parameter of the model. A fulfilled request has started
  playback. A rejected one either was refused before the element started (\<open>paused\<close>
  stays true, \<open>Rejected True\<close>) or failed after the element had left the paused state
  (\<open>Rejected False\<close>). The handler passed to \<open>catch\<close> has an empty body, so a
  rejection changes nothing else.
\<close>

datatype play_outcome = Fulfilled | Rejected bool

definition play :: "play_outcome \<Rightarrow> toggle_page \<Rightarrow> toggle_page" where
  "play r s =
     s\<lparr>ambientAudio_paused :=
         (case r of Fulfilled \<Rightarrow> False | Rejected b \<Rightarrow> ambientAudio_paused s \<and> b),
       play_requests := Suc (play_requests s)\<rparr>"

definition pause :: "toggle_page \<Rightarrow> toggle_page" where
  "pause s = s\<lparr>ambientAudio_paused := True\<rparr>"

definition alert :: "string \<Rightarrow> toggle_page \<Rightarrow> toggle_page" where
  "alert msg s = s\<lparr>alerts := alerts s @ [msg]\<rparr>"

text \<open>The listener registered with \<open>audioToggle.addEventListener('click', ...)\<close>.\<close>

definition audioToggle_click :: "play_outcome \<Rightarrow> toggle_page \<Rightarrow> toggle_page" where
  "audioToggle_click r s =
     (if ambientAudio_src s = []
      then alert ''Please add an audio source in the HTML to enable sound.'' s
      else if ambientAudio_paused s
      then (play r s)\<lparr>audioToggle_textContent := ''Pause Sound''\<rparr>
      else (pause s)\<lparr>audioToggle_textContent := ''Play Sound''\<rparr>)"

section \<open>Properties of the progress ratio\<close>

lemma progress_bounds: "0 \<le> progress s t \<and> progress s t \<le> 1"
  by (simp add: progress_def)

lemma progress_no_range: "t \<le> 0 \<Longrightarrow> progress s t = 0"
  by (simp add: progress_def)

text \<open>
  Claim C1. For every scroll offset, viewport height and container scroll height, the
  progress computed by the handler lies in the closed interval from 0 to 1, and it is 0
  whenever the scrollable range (scroll height minus viewport height) is zero or
  negative, whatever the scroll offset.
\<close>

theorem C1_progress_clamped:
  "0 \<le> progress s (totalScroll scrollHeight viewport)
   \<and> progress s (totalScroll scrollHeight viewport) \<le> 1
   \<and> (totalScroll scrollHeight viewport \<le> 0
        \<longrightarrow> progress s (totalScroll scrollHeight viewport) = 0)"
  using progress_bounds [of s "totalScroll scrollHeight viewport"]
        progress_no_range [of "totalScroll scrollHeight viewport" s]
  by blast

theorem C1_progress_clamped_witness:
  "totalScroll 400 600 \<le> 0 \<and> progress 250 (totalScroll 400 600) = 0
   \<and> 0 \<le> progress 250 (totalScroll 400 600) \<and> progress 250 (totalScroll 400 600) \<le> 1"
  using C1_progress_clamped [of 250 400 600] by (simp add: totalScroll_def)

text \<open>
  Claim C2, as amended. The claim says that for a positive scrollable range the handler
  divides by \<open>max(1, range)\<close>. The source divides by the range itself, so for a range
  strictly between 0 and 1 the two differ: at scroll offset 1/4 and range 1/2 the handler
  computes 1/2 and the specified formula 1/4.
\<close>

theorem C2_divisor_floor_counterexample:
  "0 < totalScroll (3/2) 1
   \<and> progress (1/4) (totalScroll (3/2) 1)
       \<noteq> progress_as_specified (1/4) (totalScroll (3/2) 1)"
  by (simp add: totalScroll_def progress_def progress_as_specified_def clamp01_def)

text \<open>
  Claim C2, amended: for every scroll offset and every positive scrollable range the
  progress is \<open>clamp01\<close> of the scroll offset divided by the range itself; this is the
  specified \<open>clamp01(scrollOffset / max(1, range))\<close> whenever the range is at least 1.
\<close>

theorem C2_progress_divides_by_range:
  assumes "0 < totalScroll scrollHeight viewport"
  shows "progress s (totalScroll scrollHeight viewport)
           = clamp01 (s / totalScroll scrollHeight viewport)
         \<and> (1 \<le> totalScroll scrollHeight viewport \<longrightarrow>
              progress s (totalScroll scrollHeight viewport)
                = progress_as_specified s (totalScroll scrollHeight viewport))"
  using assms by (simp add: progress_def progress_as_specified_def clamp01_def max_def)

theorem C2_progress_divides_by_range_witness:
  "0 < totalScroll 700 600 \<and> 1 \<le> totalScroll 700 600
   \<and> progress 50 (totalScroll 700 600) = 1/2
   \<and> progress_as_specified 50 (totalScroll 700 600) = 1/2"
  using C2_progress_divides_by_range [of 700 600 50]
  by (simp add: totalScroll_def clamp01_def)

text \<open>
  Claim C5. For a fixed viewport height and container scroll height with a positive
  scrollable range, the progress is monotonically non-decreasing in the scroll offset,
  the offset being the value the handler binds to \<open>scrollTop\<close>.
\<close>

theorem C5_progress_monotone:
  assumes "0 < totalScroll scrollHeight viewport" and "s1 \<le> s2"
  shows "progress s1 (totalScroll scrollHeight viewport)
           \<le> progress s2 (totalScroll scrollHeight viewport)"
proof -
  let ?t = "totalScroll scrollHeight viewport"
  from assms have "s1 / ?t \<le> s2 / ?t" by (simp add: divide_right_mono)
  then have "min 1 (max 0 (s1 / ?t)) \<le> min 1 (max 0 (s2 / ?t))" by linarith
  with assms(1) show ?thesis by (simp only: progress_def if_True)
qed

theorem C5_progress_monotone_witness:
  "0 < totalScroll 700 600 \<and> (20::real) \<le> 50
   \<and> progress 20 (totalScroll 700 600) \<le> progress 50 (totalScroll 700 600)"
  using C5_progress_monotone [of 700 600 20 50] by (simp add: totalScroll_def)

section \<open>Properties of the shapes and the messages\<close>


lemma target_in_range: "i < 5 \<Longrightarrow> target i = Some (messagePositions ! i)"
  by (simp add: target_def messagePositions_def)

lemma target_out_of_range: "5 \<le> i \<Longrightarrow> target i = None"
  by (simp add: target_def messagePositions_def)

lemma opacity_in_range:
  "i < 5 \<Longrightarrow> opacity p i =
     (if \<bar>p - messagePositions ! i\<bar> < 0.12 then 1 - \<bar>p - messagePositions ! i\<bar> / 0.12 else 0)"
  by (simp add: opacity_def diff_def target_in_range fadeRange_def)

lemma opacity_tent:
  assumes "i < 5"
  shows "opacity p i = max 0 (1 - \<bar>p - messagePositions ! i\<bar> / 0.12)
         \<and> (opacity p i = 1 \<longleftrightarrow> p = messagePositions ! i)
         \<and> (0.12 \<le> \<bar>p - messagePositions ! i\<bar> \<longrightarrow> opacity p i = 0)
         \<and> (\<bar>p - messagePositions ! i\<bar> < 0.12 \<longrightarrow>
               opacity p i = 1 - \<bar>p - messagePositions ! i\<bar> / 0.12)"
  using assms by (auto simp add: opacity_in_range max_def)

lemma handleScroll_opacity_writes:
  assumes "scrollContainer_scrollHeight h = Some scrollHeight"
    and "p = progress (scrollTop (pageYOffset h) (documentElement_scrollTop h))
                      (totalScroll scrollHeight (innerHeight h))"
    and "i < messages_length h"
  shows "\<exists>es. handleScroll h = Inr es \<and> SetOpacity i (opacity p i) \<in> set es
           \<and> (\<forall>v. SetOpacity i v \<in> set es \<longrightarrow> v = opacity p i)"
proof -
  let ?es = "[SetBackgroundColor (hue p) 60 (lightness p)]
             @ shape_effects p (shapes_length h)
             @ message_effects p (messages_length h)
             @ (if p \<ge> 0.99 then [ScrollTo 0 1] else [])"
  have run: "handleScroll h = Inr ?es"
    using assms(1,2) by (simp add: handleScroll_def Let_def)
  have mem: "SetOpacity i (opacity p i) \<in> set ?es"
    using assms(3) by (simp add: message_effects_def)
  have only: "\<forall>v. SetOpacity i v \<in> set ?es \<longrightarrow> v = opacity p i"
    by (auto simp add: shape_effects_def message_effects_def)
  from run mem only show ?thesis by blast
qed

text \<open>
  Claim C3. For a message index \<open>i\<close> below 5, with its target \<open>t\<close> from
  \<open>[0.10, 0.30, 0.50, 0.70, 0.90]\<close>, every invocation of the handler (on a page that
  has the scroll container and that message) computes a progress \<open>p\<close> between 0 and 1
  and assigns to message \<open>i\<close> the opacity \<open>max(0, 1 - |p - t|/0.12)\<close> and no other:
  the opacity assigned is 1 exactly when \<open>p = t\<close>, it is 0 whenever
  \<open>|p - t| \<ge> 0.12\<close>, and it is the linear \<open>1 - |p - t|/0.12\<close> in between. The
  same holds of the opacity formula at every real \<open>q\<close>.
\<close>

theorem C3_handler_opacity_tent:
  assumes "scrollContainer_scrollHeight h = Some scrollHeight"
    and "p = progress (scrollTop (pageYOffset h) (documentElement_scrollTop h))
                      (totalScroll scrollHeight (innerHeight h))"
    and "i < 5" and "i < messages_length h"
  shows "0 \<le> p \<and> p \<le> 1
         \<and> (\<exists>es. handleScroll h = Inr es
              \<and> SetOpacity i (max 0 (1 - \<bar>p - messagePositions ! i\<bar> / 0.12)) \<in> set es
              \<and> (\<forall>v. SetOpacity i v \<in> set es \<longrightarrow>
                     v = max 0 (1 - \<bar>p - messagePositions ! i\<bar> / 0.12)
                     \<and> (v = 1 \<longleftrightarrow> p = messagePositions ! i)
                     \<and> (0.12 \<le> \<bar>p - messagePositions ! i\<bar> \<longrightarrow> v = 0)
                     \<and> (\<bar>p - messagePositions ! i\<bar> < 0.12 \<longrightarrow>
                           v = 1 - \<bar>p - messagePositions ! i\<bar> / 0.12)))
         \<and> (\<forall>q. opacity q i = max 0 (1 - \<bar>q - messagePositions ! i\<bar> / 0.12)
                \<and> (opacity q i = 1 \<longleftrightarrow> q = messagePositions ! i)
                \<and> (0.12 \<le> \<bar>q - messagePositions ! i\<bar> \<longrightarrow> opacity q i = 0)
                \<and> (\<bar>q - messagePositions ! i\<bar> < 0.12 \<longrightarrow>
                      opacity q i = 1 - \<bar>q - messagePositions ! i\<bar> / 0.12))"
proof -
  have bounds: "0 \<le> p \<and> p \<le> 1"
    unfolding assms(2) by (rule progress_bounds)
  have tent: "\<And>q. opacity q i = max 0 (1 - \<bar>q - messagePositions ! i\<bar> / 0.12)
                \<and> (opacity q i = 1 \<longleftrightarrow> q = messagePositions ! i)
                \<and> (0.12 \<le> \<bar>q - messagePositions ! i\<bar> \<longrightarrow> opacity q i = 0)
                \<and> (\<bar>q - messagePositions ! i\<bar> < 0.12 \<longrightarrow>
                      opacity q i = 1 - \<bar>q - messagePositions ! i\<bar> / 0.12)"
    using assms(3) by (rule opacity_tent)
  obtain es where run: "handleScroll h = Inr es"
    and mem: "SetOpacity i (opacity p i) \<in> set es"
    and only: "\<forall>v. SetOpacity i v \<in> set es \<longrightarrow> v = opacity p i"
    using handleScroll_opacity_writes [OF assms(1,2,4)] by blast
  have mem': "SetOpacity i (max 0 (1 - \<bar>p - messagePositions ! i\<bar> / 0.12)) \<in> set es"
    using mem tent [of p] by (simp only:)
  have only': "\<forall>v. SetOpacity i v \<in> set es \<longrightarrow>
                     v = max 0 (1 - \<bar>p - messagePositions ! i\<bar> / 0.12)
                     \<and> (v = 1 \<longleftrightarrow> p = messagePositions ! i)
                     \<and> (0.12 \<le> \<bar>p - messagePositions ! i\<bar> \<longrightarrow> v = 0)
                     \<and> (\<bar>p - messagePositions ! i\<bar> < 0.12 \<longrightarrow>
                           v = 1 - \<bar>p - messagePositions ! i\<bar> / 0.12)"
  proof (intro allI impI)
    fix v assume "SetOpacity i v \<in> set es"
    with only have v: "v = opacity p i" by blast
    show "v = max 0 (1 - \<bar>p - messagePositions ! i\<bar> / 0.12)
                     \<and> (v = 1 \<longleftrightarrow> p = messagePositions ! i)
                     \<and> (0.12 \<le> \<bar>p - messagePositions ! i\<bar> \<longrightarrow> v = 0)
                     \<and> (\<bar>p - messagePositions ! i\<bar> < 0.12 \<longrightarrow>
                           v = 1 - \<bar>p - messagePositions ! i\<bar> / 0.12)"
      unfolding v by (rule tent)
  qed
  from bounds run mem' only' tent show ?thesis by blast
qed

theorem C3_handler_opacity_tent_witness:
  "scrollContainer_scrollHeight
      \<lparr>pageYOffset = 30, documentElement_scrollTop = 30, innerHeight = 600,
       scrollContainer_scrollHeight = Some 700, shapes_length = 3, messages_length = 5\<rparr>
     = Some 700
   \<and> progress (scrollTop 30 30) (totalScroll 700 600) = 3/10
   \<and> (1::nat) < 5
   \<and> 1 < messages_length
      \<lparr>pageYOffset = 30, documentElement_scrollTop = 30, innerHeight = 600,
       scrollContainer_scrollHeight = Some 700, shapes_length = 3, messages_length = 5\<rparr>
   \<and> messagePositions ! 1 = 3/10
   \<and> (\<exists>es. handleScroll
         \<lparr>pageYOffset = 30, documentElement_scrollTop = 30, innerHeight = 600,
          scrollContainer_scrollHeight = Some 700, shapes_length = 3, messages_length = 5\<rparr>
        = Inr es \<and> SetOpacity 1 1 \<in> set es
        \<and> (\<forall>v. SetOpacity 1 v \<in> set es \<longrightarrow> v = 1))
   \<and> opacity 0.3 1 = 1 \<and> opacity 0.3 0 = 0"
proof -
  let ?h = "\<lparr>pageYOffset = 30, documentElement_scrollTop = 30, innerHeight = 600,
       scrollContainer_scrollHeight = Some 700, shapes_length = 3, messages_length = 5\<rparr>"
  have a: "scrollContainer_scrollHeight ?h = Some 700" by simp
  have b: "3/10 = progress (scrollTop (pageYOffset ?h) (documentElement_scrollTop ?h))
                      (totalScroll 700 (innerHeight ?h))"
    by (simp add: progress_def scrollTop_def totalScroll_def)
  have b': "progress (scrollTop 30 30) (totalScroll 700 600) = 3/10"
    by (simp add: progress_def scrollTop_def totalScroll_def)
  have c: "(1::nat) < 5" by simp
  have d: "1 < messages_length ?h" by simp
  have t: "messagePositions ! 1 = 3/10" by (simp add: messagePositions_def)
  have z: "opacity 0.3 0 = 0"
    by (simp add: opacity_in_range messagePositions_def)
  from C3_handler_opacity_tent [OF a b c d]
  have "(\<exists>es. handleScroll ?h = Inr es \<and> SetOpacity 1 1 \<in> set es
          \<and> (\<forall>v. SetOpacity 1 v \<in> set es \<longrightarrow> v = 1))
        \<and> opacity 0.3 1 = 1"
    unfolding t by (simp; blast?)
  with a b' c d t z show ?thesis by blast
qed

section \<open>The wrap at the end of the scroll\<close>

lemma shape_effects_visual: "list_all is_visual (shape_effects p n)"
  by (simp add: shape_effects_def list_all_iff)

lemma message_effects_visual: "list_all is_visual (message_effects p m)"
  by (simp add: message_effects_def list_all_iff)

text \<open>
  Claim C4. In every invocation of the handler that computes a progress \<open>p\<close> of at
  least 0.99, the writes are: the background colour for \<open>p\<close>, the scale of every
  shape for \<open>p\<close>, the opacity of every message for \<open>p\<close>, all computed from that
  pre-wrap \<open>p\<close>, and after them, as the last action, \<open>window.scrollTo(0, 1)\<close>: the
  vertical offset requested is 1, not 0, and nothing visual is written after it. (The
  handler runs its body only on a page that has the scroll container.)
\<close>

theorem C4_wrap_after_visuals:
  assumes "scrollContainer_scrollHeight h = Some scrollHeight"
    and "p = progress (scrollTop (pageYOffset h) (documentElement_scrollTop h))
                      (totalScroll scrollHeight (innerHeight h))"
    and "0.99 \<le> p"
  shows "\<exists>vis. handleScroll h = Inr (vis @ [ScrollTo 0 1])
           \<and> vis = SetBackgroundColor (200 + p * 100) 60 (60 + sin (p * pi) * 10)
                   # map (\<lambda>i. SetTransform i
                            (0.8 + sin (p * 8 * pi + real i * pi / real (shapes_length h)) * 0.2))
                         [0..<shapes_length h]
                   @ map (\<lambda>i. SetOpacity i (opacity p i)) [0..<messages_length h]
           \<and> list_all is_visual vis"
proof -
  let ?vis = "SetBackgroundColor (hue p) 60 (lightness p)
              # shape_effects p (shapes_length h) @ message_effects p (messages_length h)"
  have run: "handleScroll h = Inr (?vis @ [ScrollTo 0 1])"
    using assms by (simp add: handleScroll_def Let_def)
  have form: "?vis = SetBackgroundColor (200 + p * 100) 60 (60 + sin (p * pi) * 10)
                   # map (\<lambda>i. SetTransform i
                            (0.8 + sin (p * 8 * pi + real i * pi / real (shapes_length h)) * 0.2))
                         [0..<shapes_length h]
                   @ map (\<lambda>i. SetOpacity i (opacity p i)) [0..<messages_length h]"
    by (simp add: hue_def lightness_def shape_effects_def message_effects_def
                  scale_def phase_def phaseOffset_def)
  have vis: "list_all is_visual ?vis"
    using shape_effects_visual message_effects_visual by simp
  from run form vis show ?thesis by metis
qed

text \<open>
  The wrap scenario of the specification: a scrollable range of 100 and a scroll offset
  of 100 give progress 1.
\<close>

theorem C4_wrap_after_visuals_witness:
  "scrollContainer_scrollHeight
      \<lparr>pageYOffset = 100, documentElement_scrollTop = 100, innerHeight = 600,
       scrollContainer_scrollHeight = Some 700, shapes_length = 3, messages_length = 5\<rparr>
     = Some 700
   \<and> (0.99::real) \<le> progress (scrollTop 100 100) (totalScroll 700 600)
   \<and> (\<exists>vis. handleScroll
         \<lparr>pageYOffset = 100, documentElement_scrollTop = 100, innerHeight = 600,
          scrollContainer_scrollHeight = Some 700, shapes_length = 3, messages_length = 5\<rparr>
        = Inr (vis @ [ScrollTo 0 1]) \<and> list_all is_visual vis)"
proof -
  let ?h = "\<lparr>pageYOffset = 100, documentElement_scrollTop = 100, innerHeight = 600,
       scrollContainer_scrollHeight = Some 700, shapes_length = 3, messages_length = 5\<rparr>"
  have a: "scrollContainer_scrollHeight ?h = Some 700" by simp
  have b: "1 = progress (scrollTop (pageYOffset ?h) (documentElement_scrollTop ?h))
                      (totalScroll 700 (innerHeight ?h))"
    by (simp add: progress_def scrollTop_def totalScroll_def)
  have c: "(0.99::real) \<le> 1" by simp
  have d: "(0.99::real) \<le> progress (scrollTop 100 100) (totalScroll 700 600)"
    by (simp add: progress_def scrollTop_def totalScroll_def)
  from C4_wrap_after_visuals [OF a b c] a d show ?thesis by blast
qed

section \<open>Messages beyond the fifth\<close>

lemma opacity_out_of_range: "5 \<le> i \<Longrightarrow> opacity p i = 0"
  by (simp add: opacity_def diff_def target_out_of_range)

text \<open>
  Claim C10. For a message whose index is at least 5, the target read past the end of
  \<open>messagePositions\<close> is \<open>undefined\<close>, the difference is \<open>NaN\<close>, the opacity
  computed is 0 for every progress, and every invocation of the handler (on a page that
  has the scroll container) returns normally, writes opacity 0 to that message and
  writes no other opacity to it.
\<close>

theorem C10_extra_messages_transparent:
  assumes "scrollContainer_scrollHeight h = Some scrollHeight"
    and "5 \<le> i" and "i < messages_length h"
  shows "target i = None \<and> diff p i = None \<and> opacity p i = 0
         \<and> (\<exists>es. handleScroll h = Inr es \<and> SetOpacity i 0 \<in> set es
                \<and> (\<forall>v. SetOpacity i v \<in> set es \<longrightarrow> v = 0))"
proof -
  let ?p = "progress (scrollTop (pageYOffset h) (documentElement_scrollTop h))
                     (totalScroll scrollHeight (innerHeight h))"
  let ?es = "[SetBackgroundColor (hue ?p) 60 (lightness ?p)]
             @ shape_effects ?p (shapes_length h)
             @ message_effects ?p (messages_length h)
             @ (if ?p \<ge> 0.99 then [ScrollTo 0 1] else [])"
  have run: "handleScroll h = Inr ?es"
    using assms(1) by (simp add: handleScroll_def Let_def)
  have zero: "\<And>q. opacity q i = 0"
    using assms(2) by (rule opacity_out_of_range)
  have "SetOpacity i (opacity ?p i) \<in> set (message_effects ?p (messages_length h))"
    using assms(3) by (simp add: message_effects_def)
  then have mem: "SetOpacity i 0 \<in> set ?es" by (simp add: zero)
  have only: "\<forall>v. SetOpacity i v \<in> set ?es \<longrightarrow> v = 0"
    by (auto simp add: shape_effects_def message_effects_def zero)
  from assms(2) have "target i = None" by (rule target_out_of_range)
  then have "diff p i = None" by (simp add: diff_def)
  with \<open>target i = None\<close> zero run mem only show ?thesis by blast
qed

theorem C10_extra_messages_transparent_witness:
  "scrollContainer_scrollHeight
      \<lparr>pageYOffset = 30, documentElement_scrollTop = 30, innerHeight = 600,
       scrollContainer_scrollHeight = Some 700, shapes_length = 0, messages_length = 6\<rparr>
     = Some 700
   \<and> (5::nat) \<le> 5
   \<and> 5 < messages_length
      \<lparr>pageYOffset = 30, documentElement_scrollTop = 30, innerHeight = 600,
       scrollContainer_scrollHeight = Some 700, shapes_length = 0, messages_length = 6\<rparr>
   \<and> target 5 = None \<and> opacity 0.9 5 = 0
   \<and> (\<exists>es. handleScroll
         \<lparr>pageYOffset = 30, documentElement_scrollTop = 30, innerHeight = 600,
          scrollContainer_scrollHeight = Some 700, shapes_length = 0, messages_length = 6\<rparr>
        = Inr es \<and> SetOpacity 5 0 \<in> set es)"
proof -
  let ?h = "\<lparr>pageYOffset = 30, documentElement_scrollTop = 30, innerHeight = 600,
       scrollContainer_scrollHeight = Some 700, shapes_length = 0, messages_length = 6\<rparr>"
  have a: "scrollContainer_scrollHeight ?h = Some 700" by simp
  have b: "(5::nat) \<le> 5" by simp
  have c: "5 < messages_length ?h" by simp
  from C10_extra_messages_transparent [OF a b c, of "0.9"] a b c show ?thesis by blast
qed

section \<open>The audio toggle\<close>

text \<open>
  Claim C7, as stated: on the play branch (source set, audio paused), a failed playback
  request leaves the label unchanged. The handler assigns the label right after the
  request, whatever becomes of the promise: with the label \<open>Play Sound\<close> before the
  click and a rejected request, the label after the click is \<open>Pause Sound\<close>.
\<close>

theorem C7_label_unchanged_on_failure_counterexample:
  "ambientAudio_src \<lparr>ambientAudio_src = ''ambient.mp3'', ambientAudio_paused = True,
       audioToggle_textContent = ''Play Sound'', alerts = [], play_requests = 0\<rparr> \<noteq> []
   \<and> ambientAudio_paused \<lparr>ambientAudio_src = ''ambient.mp3'', ambientAudio_paused = True,
       audioToggle_textContent = ''Play Sound'', alerts = [], play_requests = 0\<rparr>
   \<and> audioToggle_textContent
        (audioToggle_click (Rejected True)
          \<lparr>ambientAudio_src = ''ambient.mp3'', ambientAudio_paused = True,
           audioToggle_textContent = ''Play Sound'', alerts = [], play_requests = 0\<rparr>)
      \<noteq> audioToggle_textContent
          \<lparr>ambientAudio_src = ''ambient.mp3'', ambientAudio_paused = True,
           audioToggle_textContent = ''Play Sound'', alerts = [], play_requests = 0\<rparr>"
  by (simp add: audioToggle_click_def play_def)

text \<open>
  Claim C7, amended: on the play branch, a failed playback request is ignored silently
  (no notice is shown and playback is requested once, with no retry), and the label is
  set to \<open>Pause Sound\<close> all the same, exactly as after a successful request.
\<close>

theorem C7_failed_play_still_relabels:
  assumes "ambientAudio_src s \<noteq> []" and "ambientAudio_paused s"
  shows "audioToggle_textContent (audioToggle_click (Rejected b) s) = ''Pause Sound''
         \<and> audioToggle_textContent (audioToggle_click (Rejected b) s)
             = audioToggle_textContent (audioToggle_click Fulfilled s)
         \<and> alerts (audioToggle_click (Rejected b) s) = alerts s
         \<and> play_requests (audioToggle_click (Rejected b) s) = Suc (play_requests s)"
  using assms by (simp add: audioToggle_click_def play_def)

theorem C7_failed_play_still_relabels_witness:
  "ambientAudio_src \<lparr>ambientAudio_src = ''ambient.mp3'', ambientAudio_paused = True,
       audioToggle_textContent = ''Play Sound'', alerts = [], play_requests = 0\<rparr> \<noteq> []
   \<and> ambientAudio_paused \<lparr>ambientAudio_src = ''ambient.mp3'', ambientAudio_paused = True,
       audioToggle_textContent = ''Play Sound'', alerts = [], play_requests = 0\<rparr>
   \<and> audioToggle_textContent
        (audioToggle_click (Rejected True)
          \<lparr>ambientAudio_src = ''ambient.mp3'', ambientAudio_paused = True,
           audioToggle_textContent = ''Play Sound'', alerts = [], play_requests = 0\<rparr>)
      = ''Pause Sound''"
  using C7_failed_play_still_relabels
          [of "\<lparr>ambientAudio_src = ''ambient.mp3'', ambientAudio_paused = True,
                audioToggle_textContent = ''Play Sound'', alerts = [], play_requests = 0\<rparr>"
              True]
  by simp

text \<open>
  Claim C8. Whenever the click handler runs with a non-empty audio source and the audio
  paused, playback is requested and the label is set to \<open>Pause Sound\<close>, whether the
  request is fulfilled or rejected.
\<close>

theorem C8_play_branch_relabels:
  assumes "ambientAudio_src s \<noteq> []" and "ambientAudio_paused s"
  shows "audioToggle_textContent (audioToggle_click r s) = ''Pause Sound''
         \<and> play_requests (audioToggle_click r s) = Suc (play_requests s)"
  using assms by (simp add: audioToggle_click_def play_def)

theorem C8_play_branch_relabels_witness:
  "ambientAudio_src \<lparr>ambientAudio_src = ''ambient.mp3'', ambientAudio_paused = True,
       audioToggle_textContent = ''Play Sound'', alerts = [], play_requests = 0\<rparr> \<noteq> []
   \<and> ambientAudio_paused \<lparr>ambientAudio_src = ''ambient.mp3'', ambientAudio_paused = True,
       audioToggle_textContent = ''Play Sound'', alerts = [], play_requests = 0\<rparr>
   \<and> audioToggle_textContent
        (audioToggle_click Fulfilled
          \<lparr>ambientAudio_src = ''ambient.mp3'', ambientAudio_paused = True,
           audioToggle_textContent = ''Play Sound'', alerts = [], play_requests = 0\<rparr>)
      = ''Pause Sound''
   \<and> play_requests
        (audioToggle_click Fulfilled
          \<lparr>ambientAudio_src = ''ambient.mp3'', ambientAudio_paused = True,
           audioToggle_textContent = ''Play Sound'', alerts = [], play_requests = 0\<rparr>)
      = 1"
  using C8_play_branch_relabels
          [of "\<lparr>ambientAudio_src = ''ambient.mp3'', ambientAudio_paused = True,
                audioToggle_textContent = ''Play Sound'', alerts = [], play_requests = 0\<rparr>"
              Fulfilled]
  by simp

text \<open>
  Claim C9. Whenever the click handler runs with an empty audio source, the notice is
  shown and nothing else changes: the paused state of the audio, the label, the source
  and the number of playback requests are what they were.
\<close>

theorem C9_no_source_notice_only:
  assumes "ambientAudio_src s = []"
  shows "audioToggle_click r s
           = s\<lparr>alerts := alerts s @ [''Please add an audio source in the HTML to enable sound.'']\<rparr>
         \<and> ambientAudio_paused (audioToggle_click r s) = ambientAudio_paused s
         \<and> audioToggle_textContent (audioToggle_click r s) = audioToggle_textContent s
         \<and> ambientAudio_src (audioToggle_click r s) = ambientAudio_src s
         \<and> play_requests (audioToggle_click r s) = play_requests s"
  using assms by (simp add: audioToggle_click_def alert_def)

theorem C9_no_source_notice_only_witness:
  "ambientAudio_src \<lparr>ambientAudio_src = [], ambientAudio_paused = True,
       audioToggle_textContent = ''Play Sound'', alerts = [], play_requests = 0\<rparr> = []
   \<and> audioToggle_click Fulfilled
        \<lparr>ambientAudio_src = [], ambientAudio_paused = True,
         audioToggle_textContent = ''Play Sound'', alerts = [], play_requests = 0\<rparr>
      = \<lparr>ambientAudio_src = [], ambientAudio_paused = True,
         audioToggle_textContent = ''Play Sound'',
         alerts = [''Please add an audio source in the HTML to enable sound.''],
         play_requests = 0\<rparr>"
  using C9_no_source_notice_only
          [of "\<lparr>ambientAudio_src = [], ambientAudio_paused = True,
                audioToggle_textContent = ''Play Sound'', alerts = [], play_requests = 0\<rparr>"
              Fulfilled]
  by simp

end
